theory Spec2Isabelle
  imports Complex_Main
begin

section \<open>JavaScript values\<close>

text \<open>
  The values the TypeScript sources compute with at run time. Objects are association
  lists of own properties. A number is a finite one or, as \<open>JSON.parse\<close> yields for a
  literal that overflows, an infinity.
\<close>

datatype number = Finite rat | PosInfinity | NegInfinity

datatype jsval =
    JUndefined
  | JNull
  | JBool bool
  | JNum number
  | JStr string
  | JArr "jsval list"
  | JObj "(string \<times> jsval) list"

datatype error = TypeError | RangeError | SyntaxError

text \<open>Truthiness: \<open>undefined\<close>, \<open>null\<close>, \<open>false\<close>, \<open>0\<close> and \<open>''\<close> are falsy.\<close>

fun truthy :: "jsval \<Rightarrow> bool" where
  "truthy JUndefined = False"
| "truthy JNull = False"
| "truthy (JBool b) = b"
| "truthy (JNum n) = (n \<noteq> Finite 0)"
| "truthy (JStr s) = (s \<noteq> [])"
| "truthy (JArr xs) = True"
| "truthy (JObj kvs) = True"

text \<open>\<open>a && b\<close>, \<open>a || b\<close> and \<open>!a\<close>: the first two return one of their operands.\<close>

definition js_and :: "jsval \<Rightarrow> jsval \<Rightarrow> jsval" where
  "js_and a b = (if truthy a then b else a)"

definition js_or :: "jsval \<Rightarrow> jsval \<Rightarrow> jsval" where
  "js_or a b = (if truthy a then a else b)"

definition js_not :: "jsval \<Rightarrow> jsval" where
  "js_not a = JBool (\<not> truthy a)"

text \<open>
  \<open>x || d\<close> for an optional string field \<open>x\<close> and a string default \<open>d\<close>: an absent or
  empty \<open>x\<close> gives \<open>d\<close>. A chain \<open>a || b || d\<close> is the nesting of two of these.
\<close>

fun or_else :: "string option \<Rightarrow> string \<Rightarrow> string" where
  "or_else None d = d"
| "or_else (Some s) d = (if s = [] then d else s)"

section \<open>Project request permissions\<close>

text \<open>
  \<open>submittedBy?: string | { _id?: string; id?: string }\<close>: a bare identifier, or an
  embedded object with its optional \<open>_id\<close> and \<open>id\<close> (in this order).
\<close>

datatype submitter = SubmitterId string | SubmitterObj "string option" "string option"

text \<open>
  The fields of a project request that the sources read: those of the interface of the
  permission helper, and \<open>isDeleted\<close> of the list page's interface.
\<close>

record ProjectRequest =
  status :: string
  submittedBy :: "submitter option"
  submittedById :: "string option"
  isDeleted :: "bool option"

text \<open>\<open>CurrentUser\<close>: \<open>id?\<close>, \<open>_id?\<close> and \<open>role?\<close>.\<close>

record CurrentUser =
  cu_id :: "string option"
  cu_underscore_id :: "string option"
  role :: "string option"

record PermissionSet =
  canEdit :: jsval
  canChangeStatus :: jsval
  canViewDocument :: jsval
  canDelete :: jsval
  canApprove :: jsval
  canReject :: jsval
  isReadOnly :: jsval
  showAdminBadge :: jsval

text \<open>\<open>const userId = currentUser.id || currentUser._id || ''\<close>\<close>

definition userId :: "CurrentUser \<Rightarrow> string" where
  "userId currentUser = or_else (cu_id currentUser) (or_else (cu_underscore_id currentUser) [])"

text \<open>
  \<open>typeof submittedBy === 'string' ? submittedBy
     : submittedBy?._id || submittedBy?.id || projectRequest.submittedById || ''\<close>
\<close>

definition submittedById_of :: "ProjectRequest \<Rightarrow> string" where
  "submittedById_of projectRequest =
     (case submittedBy projectRequest of
        Some (SubmitterId s) \<Rightarrow> s
      | Some (SubmitterObj oid i) \<Rightarrow>
          or_else oid (or_else i (or_else (submittedById projectRequest) []))
      | None \<Rightarrow> or_else None (or_else None (or_else (submittedById projectRequest) [])))"

text \<open>
  \<open>userId && submittedById && userId.toString() === submittedById.toString()\<close>: the
  empty string when one of the identifiers is empty, a boolean otherwise.
\<close>

definition isOwner :: "ProjectRequest \<Rightarrow> CurrentUser \<Rightarrow> jsval" where
  "isOwner projectRequest currentUser =
     js_and (js_and (JStr (userId currentUser)) (JStr (submittedById_of projectRequest)))
            (JBool (userId currentUser = submittedById_of projectRequest))"

definition isAdmin :: "CurrentUser \<Rightarrow> jsval" where
  "isAdmin currentUser = JBool (role currentUser = Some ''admin'')"

definition isMentorOrHigher :: "CurrentUser \<Rightarrow> jsval" where
  "isMentorOrHigher currentUser =
     JBool (or_else (role currentUser) [] \<in> set [''mentor'', ''researcher'', ''admin''])"

definition isApproved :: "ProjectRequest \<Rightarrow> jsval" where
  "isApproved projectRequest = JBool (status projectRequest = ''approved'')"

text \<open>The record returned when the request or the user is absent.\<close>

definition degenerate :: PermissionSet where
  "degenerate =
     \<lparr> canEdit = JBool False, canChangeStatus = JBool False, canViewDocument = JBool False,
       canDelete = JBool False, canApprove = JBool False, canReject = JBool False,
       isReadOnly = JBool True, showAdminBadge = JBool False \<rparr>"

text \<open>
  \<open>getProjectRequestPermissions\<close>. \<open>None\<close> is \<open>null\<close> or \<open>undefined\<close>; reading a property
  of either throws a \<open>TypeError\<close>, which is the last branch.
\<close>

definition getProjectRequestPermissions ::
    "ProjectRequest option \<Rightarrow> CurrentUser option \<Rightarrow> error + PermissionSet" where
  "getProjectRequestPermissions projectRequest currentUser =
     (if projectRequest = None \<or> currentUser = None then Inr degenerate
      else case (projectRequest, currentUser) of
        (Some pr, Some cu) \<Rightarrow>
          Inr \<lparr> canEdit =
                  js_or (js_or (isAdmin cu)
                               (js_and (js_and (isOwner pr cu) (js_not (isApproved pr)))
                                       (JBool (status pr \<noteq> ''rejected''))))
                        (js_and (isMentorOrHigher cu) (js_not (isApproved pr))),
                canChangeStatus =
                  js_or (isAdmin cu) (js_and (isMentorOrHigher cu) (js_not (isApproved pr))),
                canViewDocument =
                  js_or (js_or (isAdmin cu) (isOwner pr cu)) (isMentorOrHigher cu),
                canDelete =
                  js_or (isAdmin cu)
                        (js_and (js_and (isOwner pr cu) (JBool (status pr \<noteq> ''approved'')))
                                (JBool (status pr \<noteq> ''under_review''))),
                canApprove = js_and (isMentorOrHigher cu) (js_not (isApproved pr)),
                canReject = js_and (isMentorOrHigher cu) (js_not (isApproved pr)),
                isReadOnly = js_and (isApproved pr) (js_not (isAdmin cu)),
                showAdminBadge = js_and (isApproved pr) (isAdmin cu) \<rparr>
      | _ \<Rightarrow> Inl TypeError)"

section \<open>The list page of project requests\<close>

text \<open>\<open>!request.isDeleted\<close> and the like: an absent flag is falsy.\<close>

fun flag_set :: "bool option \<Rightarrow> bool" where
  "flag_set None = False"
| "flag_set (Some b) = b"

text \<open>
  \<open>fetchProjectRequests\<close> chooses the endpoint from the filters \<open>showDeleted\<close> and
  \<open>status\<close>; both start as \<open>false\<close> and \<open>''\<close>.
\<close>

definition shouldUseDeletedEndpoint :: "bool \<Rightarrow> string \<Rightarrow> bool" where
  "shouldUseDeletedEndpoint showDeleted status_filter =
     (showDeleted \<or> status_filter = ''deleted'')"

definition endpoint :: "bool \<Rightarrow> string \<Rightarrow> string" where
  "endpoint showDeleted status_filter =
     (if shouldUseDeletedEndpoint showDeleted status_filter
      then ''/api/project-requests/deleted'' else ''/api/project-requests'')"

text \<open>
  The per-status statistics:
  \<open>items.filter(r => r.status === s && !r.isDeleted).length\<close>.
\<close>

definition status_count :: "string \<Rightarrow> ProjectRequest list \<Rightarrow> nat" where
  "status_count s items =
     length (filter (\<lambda>r. status r = s \<and> \<not> flag_set (isDeleted r)) items)"

text \<open>
  The actions cell of a table row:
  \<open>{!request.isDeleted && (() => { const permissions =
     getProjectRequestPermissions(request, currentUser); ... })()}\<close>.
  \<open>None\<close>: the permissions are not evaluated and no action depending on them is rendered.
\<close>

definition row_permissions ::
    "ProjectRequest \<Rightarrow> CurrentUser option \<Rightarrow> (error + PermissionSet) option" where
  "row_permissions request currentUser =
     (if \<not> flag_set (isDeleted request)
      then Some (getProjectRequestPermissions (Some request) currentUser)
      else None)"

section \<open>Status badges\<close>

record Badge =
  badge_color :: string
  badge_text :: string
  badge_icon :: string
  badge_badge :: "string option"

text \<open>
  What \<open>getStatusBadge\<close> returns: one of its tuples, or, since \<open>badges\<close> is an object
  literal, the member of \<open>Object.prototype\<close> that \<open>badges[status]\<close> finds under an
  inherited name.
\<close>

datatype badge_result = Tuple Badge | PrototypeMember string

definition object_prototype_keys :: "string list" where
  "object_prototype_keys =
     [''constructor'', ''hasOwnProperty'', ''isPrototypeOf'', ''propertyIsEnumerable'',
      ''toLocaleString'', ''toString'', ''valueOf'', ''__proto__'',
      ''__defineGetter__'', ''__defineSetter__'', ''__lookupGetter__'', ''__lookupSetter__'']"

definition unknown_badge :: Badge where
  "unknown_badge =
     \<lparr> badge_color = ''bg-gray-100 text-gray-800'', badge_text = ''Unknown'',
       badge_icon = ''clock'', badge_badge = None \<rparr>"

definition pending_badge :: Badge where
  "pending_badge =
     \<lparr> badge_color = ''bg-yellow-100 text-yellow-800'', badge_text = ''Pending'',
       badge_icon = ''clock'', badge_badge = None \<rparr>"

text \<open>The own properties of \<open>badges\<close>.\<close>

definition badges :: "bool \<Rightarrow> (string \<times> Badge) list" where
  "badges can_edit =
     [(''pending'', pending_badge),
      (''under_review'',
         \<lparr> badge_color = ''bg-blue-100 text-blue-800'', badge_text = ''Under Review'',
           badge_icon = ''eye'', badge_badge = None \<rparr>),
      (''approved'',
         \<lparr> badge_color = ''bg-green-100 text-green-800'', badge_text = ''Approved'',
           badge_icon = ''check-circle'',
           badge_badge = Some (if can_edit then ''Admin-Only Editing'' else ''Read-Only'') \<rparr>),
      (''rejected'',
         \<lparr> badge_color = ''bg-red-100 text-red-800'', badge_text = ''Rejected'',
           badge_icon = ''times-circle'', badge_badge = None \<rparr>),
      (''on_hold'',
         \<lparr> badge_color = ''bg-gray-100 text-gray-800'', badge_text = ''On Hold'',
           badge_icon = ''pause'', badge_badge = None \<rparr>)]"

text \<open>
  \<open>getStatusBadge\<close>: \<open>if (!status) return unknown; return badges[status] || badges.pending\<close>.
  An own or inherited member is an object or a function, hence truthy.
\<close>

definition getStatusBadge :: "string option \<Rightarrow> bool \<Rightarrow> badge_result" where
  "getStatusBadge status_arg can_edit =
     (case status_arg of
        None \<Rightarrow> Tuple unknown_badge
      | Some s \<Rightarrow>
          if s = [] then Tuple unknown_badge
          else (case map_of (badges can_edit) s of
                  Some b \<Rightarrow> Tuple b
                | None \<Rightarrow>
                    if s \<in> set object_prototype_keys then PrototypeMember s
                    else Tuple pending_badge))"

section \<open>Strings and property access\<close>

text \<open>
  Strings are lists of code units below 256. The white space that \<open>trim\<close> removes, among
  these: tab, line feed, vertical tab, form feed, carriage return, space, no-break space.
\<close>

definition js_whitespace :: "char \<Rightarrow> bool" where
  "js_whitespace c = (of_char c \<in> set [9, 10, 11, 12, 13, 32, 160 :: nat])"

text \<open>\<open>text.trim().length === 0\<close>\<close>

definition blank :: "string \<Rightarrow> bool" where
  "blank s = list_all js_whitespace s"

text \<open>\<open>s.includes(p)\<close>\<close>

fun includes_str :: "string \<Rightarrow> string \<Rightarrow> bool" where
  "includes_str [] p = (p = [])"
| "includes_str (c # cs) p = (take (length p) (c # cs) = p \<or> includes_str cs p)"

text \<open>The decimal digits of a status code, as a template literal prints it.\<close>

fun string_of_nat :: "nat \<Rightarrow> string" where
  "string_of_nat n =
     (if n < 10 then [char_of (48 + n)]
      else string_of_nat (n div 10) @ [char_of (48 + n mod 10)])"

declare string_of_nat.simps [simp del]

definition bind_err :: "error + 'a \<Rightarrow> ('a \<Rightarrow> error + 'b) \<Rightarrow> error + 'b" where
  "bind_err m f = (case m of Inl e \<Rightarrow> Inl e | Inr x \<Rightarrow> f x)"


text \<open>
  The value of \<open>v.k\<close> for a \<open>v\<close> that is neither \<open>null\<close> nor \<open>undefined\<close>, and a name \<open>k\<close>
  that no prototype defines (the sources read \<open>message\<close>, \<open>error\<close>, \<open>data\<close>, \<open>users\<close>,
  \<open>items\<close>, \<open>pagination\<close>, \<open>hasMore\<close>, \<open>id\<close> and \<open>_id\<close>): an own property of an object,
  \<open>undefined\<close> otherwise.
\<close>

fun member_of :: "jsval \<Rightarrow> string \<Rightarrow> jsval" where
  "member_of (JObj kvs) k = (case map_of kvs k of Some v \<Rightarrow> v | None \<Rightarrow> JUndefined)"
| "member_of v k = JUndefined"

definition nullish :: "jsval \<Rightarrow> bool" where
  "nullish v = (v = JUndefined \<or> v = JNull)"

text \<open>\<open>v.k\<close> throws a \<open>TypeError\<close> on \<open>null\<close> and \<open>undefined\<close>; \<open>v?.k\<close> is \<open>undefined\<close> there.\<close>

definition get_prop :: "jsval \<Rightarrow> string \<Rightarrow> error + jsval" where
  "get_prop v k = (if nullish v then Inl TypeError else Inr (member_of v k))"

definition opt_get :: "jsval \<Rightarrow> string \<Rightarrow> jsval" where
  "opt_get v k = (if nullish v then JUndefined else member_of v k)"

section \<open>The permission evaluator on run-time values\<close>

text \<open>
  The request and the user reach the evaluator as \<open>JSON.parse\<close> built them, whatever the
  interfaces declare. This is the evaluator on such values; on values of the declared
  types it is \<open>getProjectRequestPermissions\<close> above.
\<close>

fun all_err :: "(error + 'a) list \<Rightarrow> error + 'a list" where
  "all_err [] = Inr []"
| "all_err (r # rs) = bind_err r (\<lambda>y. bind_err (all_err rs) (\<lambda>ys. Inr (y # ys)))"

fun join :: "string \<Rightarrow> string list \<Rightarrow> string" where
  "join sep [] = []"
| "join sep [s] = s"
| "join sep (s # t # ss) = s @ sep @ join sep (t # ss)"

text \<open>
  \<open>v.toString()\<close>. \<open>ns\<close> prints a number. An array joins its elements with commas,
  \<open>null\<close> and \<open>undefined\<close> as the empty string. An object prints as
  \<open>[object Object]\<close> through the inherited method; an own member \<open>toString\<close> hides it,
  and since no parsed value is a function the call is a \<open>TypeError\<close>, also when the
  object is converted as an element of an array.
\<close>

fun toString :: "(number \<Rightarrow> string) \<Rightarrow> jsval \<Rightarrow> error + string" where
  "toString ns JUndefined = Inl TypeError"
| "toString ns JNull = Inl TypeError"
| "toString ns (JBool b) = Inr (if b then ''true'' else ''false'')"
| "toString ns (JNum n) = Inr (ns n)"
| "toString ns (JStr s) = Inr s"
| "toString ns (JArr xs) =
     bind_err
       (all_err (map (\<lambda>x. if x = JUndefined \<or> x = JNull then Inr [] else toString ns x) xs))
       (\<lambda>ss. Inr (join '','' ss))"
| "toString ns (JObj kvs) =
     (if map_of kvs ''toString'' = None then Inr ''[object Object]'' else Inl TypeError)"

text \<open>\<open>currentUser.id || currentUser._id || ''\<close>\<close>

definition userId_js :: "jsval \<Rightarrow> jsval" where
  "userId_js currentUser =
     js_or (js_or (member_of currentUser ''id'') (member_of currentUser ''_id'')) (JStr [])"

text \<open>
  \<open>typeof submittedBy === 'string' ? submittedBy
     : submittedBy?._id || submittedBy?.id || projectRequest.submittedById || ''\<close>
\<close>

definition submittedById_js :: "jsval \<Rightarrow> jsval" where
  "submittedById_js projectRequest =
     (case member_of projectRequest ''submittedBy'' of
        JStr s \<Rightarrow> JStr s
      | sb \<Rightarrow>
          js_or (js_or (js_or (opt_get sb ''_id'') (opt_get sb ''id''))
                       (member_of projectRequest ''submittedById''))
                (JStr []))"

text \<open>
  \<open>userId && submittedById && userId.toString() === submittedById.toString()\<close>: the
  two calls are made only when both identifiers are truthy.
\<close>

definition isOwner_js :: "(number \<Rightarrow> string) \<Rightarrow> jsval \<Rightarrow> jsval \<Rightarrow> error + jsval" where
  "isOwner_js ns projectRequest currentUser =
     (if \<not> truthy (userId_js currentUser) then Inr (userId_js currentUser)
      else if \<not> truthy (submittedById_js projectRequest)
        then Inr (submittedById_js projectRequest)
      else bind_err (toString ns (userId_js currentUser)) (\<lambda>a.
           bind_err (toString ns (submittedById_js projectRequest)) (\<lambda>b.
             Inr (JBool (a = b)))))"

definition isAdmin_js :: "jsval \<Rightarrow> jsval" where
  "isAdmin_js currentUser = JBool (member_of currentUser ''role'' = JStr ''admin'')"

definition isMentorOrHigher_js :: "jsval \<Rightarrow> jsval" where
  "isMentorOrHigher_js currentUser =
     JBool (js_or (member_of currentUser ''role'') (JStr [])
              \<in> set [JStr ''mentor'', JStr ''researcher'', JStr ''admin''])"

definition isApproved_js :: "jsval \<Rightarrow> jsval" where
  "isApproved_js projectRequest = JBool (member_of projectRequest ''status'' = JStr ''approved'')"

text \<open>
  \<open>getProjectRequestPermissions\<close> on run-time values. A value that passes the guard is
  truthy; the second branch is the \<open>TypeError\<close> of a property read on \<open>null\<close> or
  \<open>undefined\<close>.
\<close>

definition getProjectRequestPermissions_js ::
    "(number \<Rightarrow> string) \<Rightarrow> jsval \<Rightarrow> jsval \<Rightarrow> error + PermissionSet" where
  "getProjectRequestPermissions_js ns projectRequest currentUser =
     (if \<not> truthy projectRequest \<or> \<not> truthy currentUser then Inr degenerate
      else if nullish projectRequest \<or> nullish currentUser then Inl TypeError
      else
        bind_err (isOwner_js ns projectRequest currentUser) (\<lambda>owner.
          Inr \<lparr> canEdit =
                  js_or (js_or (isAdmin_js currentUser)
                               (js_and (js_and owner (js_not (isApproved_js projectRequest)))
                                       (JBool (member_of projectRequest ''status'' \<noteq>
                                               JStr ''rejected''))))
                        (js_and (isMentorOrHigher_js currentUser)
                                (js_not (isApproved_js projectRequest))),
                canChangeStatus =
                  js_or (isAdmin_js currentUser)
                        (js_and (isMentorOrHigher_js currentUser)
                                (js_not (isApproved_js projectRequest))),
                canViewDocument =
                  js_or (js_or (isAdmin_js currentUser) owner) (isMentorOrHigher_js currentUser),
                canDelete =
                  js_or (isAdmin_js currentUser)
                        (js_and (js_and owner
                                        (JBool (member_of projectRequest ''status'' \<noteq>
                                                JStr ''approved'')))
                                (JBool (member_of projectRequest ''status'' \<noteq>
                                        JStr ''under_review''))),
                canApprove = js_and (isMentorOrHigher_js currentUser)
                                    (js_not (isApproved_js projectRequest)),
                canReject = js_and (isMentorOrHigher_js currentUser)
                                   (js_not (isApproved_js projectRequest)),
                isReadOnly = js_and (isApproved_js projectRequest)
                                    (js_not (isAdmin_js currentUser)),
                showAdminBadge = js_and (isApproved_js projectRequest)
                                        (isAdmin_js currentUser) \<rparr>))"

text \<open>The run-time values of the declared types: an absent field is an absent member.\<close>

fun field :: "string \<Rightarrow> string option \<Rightarrow> (string \<times> jsval) list" where
  "field k None = []"
| "field k (Some s) = [(k, JStr s)]"

definition user_js :: "CurrentUser \<Rightarrow> jsval" where
  "user_js u =
     JObj (field ''id'' (cu_id u) @ field ''_id'' (cu_underscore_id u) @ field ''role'' (role u))"

definition request_js :: "ProjectRequest \<Rightarrow> jsval" where
  "request_js r =
     JObj ([(''status'', JStr (status r))] @
           (case submittedBy r of
              None \<Rightarrow> []
            | Some (SubmitterId s) \<Rightarrow> [(''submittedBy'', JStr s)]
            | Some (SubmitterObj oid i) \<Rightarrow>
                [(''submittedBy'', JObj (field ''_id'' oid @ field ''id'' i))]) @
           field ''submittedById'' (submittedById r) @
           (case isDeleted r of None \<Rightarrow> [] | Some b \<Rightarrow> [(''isDeleted'', JBool b)]))"

fun opt_js :: "('a \<Rightarrow> jsval) \<Rightarrow> 'a option \<Rightarrow> jsval" where
  "opt_js f None = JNull"
| "opt_js f (Some x) = f x"

text \<open>
  The values whose \<open>toString()\<close> throws, among those that are neither \<open>null\<close> nor
  \<open>undefined\<close>: an object with an own member \<open>toString\<close>, or an array with such an
  element.
\<close>

fun own_toString :: "jsval \<Rightarrow> bool" where
  "own_toString (JObj kvs) = (map_of kvs ''toString'' \<noteq> None)"
| "own_toString (JArr xs) = (\<exists>x \<in> set xs. own_toString x)"
| "own_toString v = False"

section \<open>The proxy route of a user\<close>

text \<open>
  What the handler reads of the backend's response: the status, the \<open>content-type\<close>
  header, and the body text (\<open>None\<close> when \<open>response.text()\<close> rejects).
\<close>

record BackendResponse =
  resp_status :: nat
  resp_content_type :: "string option"
  resp_text :: "string option"

datatype fetched = Rejected | Fulfilled BackendResponse

text \<open>\<open>response.ok\<close>\<close>

definition resp_ok :: "BackendResponse \<Rightarrow> bool" where
  "resp_ok response = (200 \<le> resp_status response \<and> resp_status response \<le> 299)"

record ProxyReply =
  reply_status :: nat
  reply_body :: jsval

text \<open>
  \<open>JSON.stringify\<close>, as the JSON value that the text it writes denotes: an infinity
  becomes \<open>null\<close>, a member that is \<open>undefined\<close> is left out, an element that is
  \<open>undefined\<close> becomes \<open>null\<close>. \<open>None\<close>: the result is \<open>undefined\<close>.
\<close>

fun json_of :: "jsval \<Rightarrow> jsval option" where
  "json_of JUndefined = None"
| "json_of JNull = Some JNull"
| "json_of (JBool b) = Some (JBool b)"
| "json_of (JNum n) =
     Some (case n of Finite q \<Rightarrow> JNum (Finite q) | PosInfinity \<Rightarrow> JNull
           | NegInfinity \<Rightarrow> JNull)"
| "json_of (JStr s) = Some (JStr s)"
| "json_of (JArr xs) =
     Some (JArr (map (\<lambda>x. case json_of x of None \<Rightarrow> JNull | Some j \<Rightarrow> j) xs))"
| "json_of (JObj kvs) =
     Some (JObj (concat (map (\<lambda>(k, v). case json_of v of None \<Rightarrow> [] | Some j \<Rightarrow> [(k, j)])
                          kvs)))"

text \<open>The statuses of a response that cannot have a body.\<close>

definition null_body_status :: "nat \<Rightarrow> bool" where
  "null_body_status st = (st \<in> set [101, 103, 204, 205, 304])"

text \<open>
  \<open>NextResponse.json(body, { status })\<close>: the body is serialized (a \<open>TypeError\<close> when
  there is nothing to serialize); a status outside 200..599 is a \<open>RangeError\<close>; a body
  with a status that cannot have one is a \<open>TypeError\<close>. \<open>reply_body\<close> is the JSON value
  that the client receives.
\<close>

definition NextResponse_json :: "jsval \<Rightarrow> nat \<Rightarrow> error + ProxyReply" where
  "NextResponse_json body st =
     (case json_of body of
        None \<Rightarrow> Inl TypeError
      | Some j \<Rightarrow>
          if st < 200 \<or> 599 < st then Inl RangeError
          else if null_body_status st then Inl TypeError
          else Inr \<lparr> reply_status = st, reply_body = j \<rparr>)"

text \<open>
  The \<open>data\<close> that \<open>GET\<close> builds from the response. \<open>parse\<close> is \<open>JSON.parse\<close>, \<open>None\<close> when
  it throws.
\<close>

definition GET_data :: "(string \<Rightarrow> jsval option) \<Rightarrow> string \<Rightarrow> BackendResponse \<Rightarrow> jsval" where
  "GET_data parse ident response =
     (let contentType = or_else (resp_content_type response) [];
          isJson = includes_str contentType ''application/json''
      in case resp_text response of
           None \<Rightarrow>
             JObj [(''message'',
                    JStr (''Failed to read backend response ('' @
                          string_of_nat (resp_status response) @ '')''))]
         | Some text_read \<Rightarrow>
             if text_read = [] \<or> blank text_read then JObj []
             else if isJson then
               (case parse text_read of
                  Some v \<Rightarrow> v
                | None \<Rightarrow>
                    JObj [(''message'',
                           JStr (''Backend returned invalid JSON ('' @
                                 string_of_nat (resp_status response) @ '')'')),
                          (''error'', JStr ''Invalid JSON response from backend'')])
             else
               JObj [(''message'',
                      JStr (if resp_status response = 404
                            then ''User with ID '' @ [CHR 0x22] @ ident @ [CHR 0x22] @ '' not found''
                            else ''Backend returned '' @ string_of_nat (resp_status response) @
                                 '' error'')),
                     (''error'', JStr ''Non-JSON response from backend'')])"

text \<open>
  The body of the outer \<open>try\<close> of \<open>GET\<close>. \<open>fetch\<close> maps the URL and the token to what the
  backend does; a rejected \<open>fetch\<close> throws.
\<close>

definition GET_try ::
    "(string \<Rightarrow> jsval option) \<Rightarrow> (string \<Rightarrow> string \<Rightarrow> fetched) \<Rightarrow> string \<Rightarrow> string \<Rightarrow>
     string option \<Rightarrow> error + ProxyReply" where
  "GET_try parse fetch backendUrl ident token =
     (case token of
        None \<Rightarrow>
          NextResponse_json
            (JObj [(''success'', JBool False),
                   (''message'', JStr ''No authorization token provided'')]) 401
      | Some tok \<Rightarrow>
          if tok = [] then
            NextResponse_json
              (JObj [(''success'', JBool False),
                     (''message'', JStr ''No authorization token provided'')]) 401
          else
            (case fetch (backendUrl @ ''/api/users/'' @ ident) tok of
               Rejected \<Rightarrow> Inl TypeError
             | Fulfilled response \<Rightarrow>
                 let data = GET_data parse ident response in
                 if resp_ok response then NextResponse_json data 200
                 else
                   bind_err (get_prop data ''message'') (\<lambda>m.
                   bind_err (if truthy m then Inr m
                             else bind_err (get_prop data ''error'') (\<lambda>e.
                                    Inr (js_or (opt_get e ''message'')
                                           (JStr (''Failed to fetch user ('' @
                                                  string_of_nat (resp_status response) @
                                                  '')''))))) (\<lambda>msg.
                   NextResponse_json
                     (JObj [(''success'', JBool False), (''message'', msg)])
                     (resp_status response)))))"

text \<open>\<open>GET\<close>: the outer \<open>catch\<close> answers 500.\<close>

definition GET ::
    "(string \<Rightarrow> jsval option) \<Rightarrow> (string \<Rightarrow> string \<Rightarrow> fetched) \<Rightarrow> string \<Rightarrow> string \<Rightarrow>
     string option \<Rightarrow> ProxyReply" where
  "GET parse fetch backendUrl ident token =
     (case GET_try parse fetch backendUrl ident token of
        Inr reply \<Rightarrow> reply
      | Inl e \<Rightarrow>
          \<lparr> reply_status = 500,
            reply_body = JObj [(''success'', JBool False),
                               (''message'', JStr ''Internal server error'')] \<rparr>)"

text \<open>
  The envelope \<open>{success: boolean, message?: string, data?: ...}\<close>: an object whose
  \<open>success\<close> is a boolean and whose \<open>message\<close>, when present, is a string.
\<close>

definition is_envelope :: "jsval \<Rightarrow> bool" where
  "is_envelope v =
     (case v of
        JObj kvs \<Rightarrow>
          (case map_of kvs ''success'' of
             Some (JBool b) \<Rightarrow>
               (case map_of kvs ''message'' of
                  None \<Rightarrow> True
                | Some (JStr m) \<Rightarrow> True
                | Some w \<Rightarrow> False)
           | other \<Rightarrow> False)
      | other \<Rightarrow> False)"

text \<open>The two bodies with which the handler reports a failure.\<close>

definition failure_envelope :: "jsval \<Rightarrow> jsval" where
  "failure_envelope m = JObj [(''success'', JBool False), (''message'', m)]"

definition internal_error :: ProxyReply where
  "internal_error =
     \<lparr> reply_status = 500, reply_body = failure_envelope (JStr ''Internal server error'') \<rparr>"

section \<open>The paginated fetch of the users page\<close>









text \<open>
  How \<open>fetchUsers\<close> ends: with the redirect when there is no token, with
  \<open>setAllUsers(allFetchedUsers)\<close> after the loop, or in its \<open>catch\<close>.
\<close>

datatype outcome = Redirected | Loaded "jsval list" | Failed





section \<open>Ownership as the specification words it\<close>

text \<open>
  The first candidate, in order, that is present and not empty; the empty string when
  there is none.
\<close>

fun first_nonempty :: "string option list \<Rightarrow> string" where
  "first_nonempty [] = []"
| "first_nonempty (None # cs) = first_nonempty cs"
| "first_nonempty (Some s # cs) = (if s = [] then first_nonempty cs else s)"

text \<open>The actor's identifier: \<open>id\<close>, else \<open>_id\<close>, else the empty string.\<close>

definition spec_actor_id :: "CurrentUser \<Rightarrow> string" where
  "spec_actor_id u = first_nonempty [cu_id u, cu_underscore_id u]"

text \<open>
  The submitter's identifier: the string form of \<open>submittedBy\<close> when it is a string;
  otherwise the embedded \<open>_id\<close>, the embedded \<open>id\<close>, the separate \<open>submittedById\<close>,
  falling back to the empty string.
\<close>

definition spec_submitter_id :: "ProjectRequest \<Rightarrow> string" where
  "spec_submitter_id r =
     (case submittedBy r of
        Some (SubmitterId s) \<Rightarrow> s
      | Some (SubmitterObj oid i) \<Rightarrow> first_nonempty [oid, i, submittedById r]
      | None \<Rightarrow> first_nonempty [submittedById r])"

definition spec_is_owner :: "ProjectRequest \<Rightarrow> CurrentUser \<Rightarrow> bool" where
  "spec_is_owner r u =
     (spec_actor_id u \<noteq> [] \<and> spec_submitter_id r \<noteq> [] \<and>
      spec_actor_id u = spec_submitter_id r)"

section \<open>Properties of the permission evaluator\<close>

lemmas perm_defs =
  getProjectRequestPermissions_def isAdmin_def isMentorOrHigher_def isApproved_def
  isOwner_def js_and_def js_or_def js_not_def

text \<open>
  C1. Approval gate: on an approved request, a user whose role is not \<open>admin\<close> gets
  \<open>isReadOnly = true\<close>, \<open>canEdit = false\<close> and \<open>canChangeStatus = false\<close>; a user whose
  role is \<open>admin\<close> gets \<open>showAdminBadge = true\<close> and \<open>canEdit = true\<close>.
\<close>

theorem approval_gate:
  assumes "status r = ''approved''"
  shows "\<exists>p. getProjectRequestPermissions (Some r) (Some u) = Inr p \<and>
           (role u \<noteq> Some ''admin'' \<longrightarrow>
              isReadOnly p = JBool True \<and> canEdit p = JBool False \<and>
              canChangeStatus p = JBool False) \<and>
           (role u = Some ''admin'' \<longrightarrow>
              showAdminBadge p = JBool True \<and> canEdit p = JBool True)"
  using assms by (simp add: perm_defs)

theorem approval_gate_witness:
  "status \<lparr> status = ''approved'', submittedBy = Some (SubmitterId ''u1''),
            submittedById = None, isDeleted = None \<rparr> = ''approved'' \<and>
   (\<exists>p. getProjectRequestPermissions
          (Some \<lparr> status = ''approved'', submittedBy = Some (SubmitterId ''u1''),
                  submittedById = None, isDeleted = None \<rparr>)
          (Some \<lparr> cu_id = Some ''u1'', cu_underscore_id = None, role = Some ''mentor'' \<rparr>) = Inr p \<and>
        isReadOnly p = JBool True \<and> canEdit p = JBool False \<and>
        canChangeStatus p = JBool False)"
  using approval_gate [of "\<lparr> status = ''approved'', submittedBy = Some (SubmitterId ''u1''),
                            submittedById = None, isDeleted = None \<rparr>"
                          "\<lparr> cu_id = Some ''u1'', cu_underscore_id = None, role = Some ''mentor'' \<rparr>"]
  by simp

lemma first_nonempty_Cons: "first_nonempty (x # xs) = or_else x (first_nonempty xs)"
  by (cases x) simp_all

lemma userId_spec: "userId u = spec_actor_id u"
  by (simp add: userId_def spec_actor_id_def first_nonempty_Cons)

lemma submitter_spec: "submittedById_of r = spec_submitter_id r"
  by (simp add: submittedById_of_def spec_submitter_id_def first_nonempty_Cons
      split: option.splits submitter.splits)

lemma isOwner_true_iff:
  "(isOwner r u = JBool True) =
   (userId u \<noteq> [] \<and> submittedById_of r \<noteq> [] \<and> userId u = submittedById_of r)"
  by (auto simp: isOwner_def js_and_def)

lemma isOwner_truthy_iff:
  "truthy (isOwner r u) =
   (userId u \<noteq> [] \<and> submittedById_of r \<noteq> [] \<and> userId u = submittedById_of r)"
  by (auto simp: isOwner_def js_and_def)

text \<open>
  C3. Ownership detection: \<open>isOwner\<close> is \<open>true\<close> exactly when the actor's identifier
  (\<open>id\<close>, else \<open>_id\<close>, else empty) and the submitter's identifier (the string form of
  \<open>submittedBy\<close>, else the embedded \<open>_id\<close>, the embedded \<open>id\<close>, the separate
  \<open>submittedById\<close>, else empty) are both non-empty and equal, and it is falsy otherwise.
  A bare \<open>"u1"\<close> and an embedded \<open>{_id: "u1"}\<close> both match the actor \<open>u1\<close>; an empty
  identifier on either side never matches.
\<close>

theorem ownership_detection:
  "(isOwner r u = JBool True) = spec_is_owner r u \<and>
   truthy (isOwner r u) = spec_is_owner r u \<and>
   (cu_id u = Some ''u1'' \<and> submittedBy r = Some (SubmitterId ''u1'') \<longrightarrow>
      isOwner r u = JBool True) \<and>
   (cu_id u = Some ''u1'' \<and> submittedBy r = Some (SubmitterObj (Some ''u1'') i) \<longrightarrow>
      isOwner r u = JBool True) \<and>
   (spec_actor_id u = [] \<or> spec_submitter_id r = [] \<longrightarrow> \<not> truthy (isOwner r u))"
  unfolding isOwner_true_iff isOwner_truthy_iff userId_spec submitter_spec
  by (auto simp: spec_is_owner_def spec_actor_id_def spec_submitter_id_def)

theorem ownership_detection_witness:
  "isOwner \<lparr> status = ''pending'', submittedBy = Some (SubmitterId ''u1''),
             submittedById = None, isDeleted = None \<rparr>
           \<lparr> cu_id = Some ''u1'', cu_underscore_id = None, role = None \<rparr> = JBool True \<and>
   isOwner \<lparr> status = ''pending'', submittedBy = Some (SubmitterObj (Some ''u1'') None),
             submittedById = None, isDeleted = None \<rparr>
           \<lparr> cu_id = Some ''u1'', cu_underscore_id = None, role = None \<rparr> = JBool True \<and>
   \<not> truthy (isOwner \<lparr> status = ''pending'', submittedBy = Some (SubmitterId []),
                       submittedById = Some ''u1'', isDeleted = None \<rparr>
                     \<lparr> cu_id = Some ''u1'', cu_underscore_id = None, role = None \<rparr>)"
  using ownership_detection
          [of "\<lparr> status = ''pending'', submittedBy = Some (SubmitterId ''u1''),
                 submittedById = None, isDeleted = None \<rparr>"
              "\<lparr> cu_id = Some ''u1'', cu_underscore_id = None, role = None \<rparr>"]
        ownership_detection
          [of "\<lparr> status = ''pending'', submittedBy = Some (SubmitterObj (Some ''u1'') None),
                 submittedById = None, isDeleted = None \<rparr>"
              "\<lparr> cu_id = Some ''u1'', cu_underscore_id = None, role = None \<rparr>" None]
        ownership_detection
          [of "\<lparr> status = ''pending'', submittedBy = Some (SubmitterId []),
                 submittedById = Some ''u1'', isDeleted = None \<rparr>"
              "\<lparr> cu_id = Some ''u1'', cu_underscore_id = None, role = None \<rparr>"]
  by (simp add: spec_is_owner_def spec_actor_id_def spec_submitter_id_def)

text \<open>
  C4. Rejection asymmetry: on a rejected request, the owner who is neither admin nor
  mentor-or-higher gets \<open>canEdit = false\<close>, while a user whose role is \<open>mentor\<close>,
  \<open>researcher\<close> or \<open>admin\<close> gets \<open>canEdit = true\<close> and \<open>canChangeStatus = true\<close>.
\<close>

theorem rejection_asymmetry:
  assumes "status r = ''rejected''"
  shows "\<exists>p. getProjectRequestPermissions (Some r) (Some u) = Inr p \<and>
           (isOwner r u = JBool True \<and> isAdmin u = JBool False \<and>
            isMentorOrHigher u = JBool False \<longrightarrow> canEdit p = JBool False) \<and>
           (role u \<in> {Some ''mentor'', Some ''researcher'', Some ''admin''} \<longrightarrow>
              canEdit p = JBool True \<and> canChangeStatus p = JBool True)"
  using assms by (auto simp: perm_defs)

theorem rejection_asymmetry_witness:
  "(\<exists>p. getProjectRequestPermissions
          (Some \<lparr> status = ''rejected'', submittedBy = Some (SubmitterId ''u1''),
                  submittedById = None, isDeleted = None \<rparr>)
          (Some \<lparr> cu_id = Some ''u1'', cu_underscore_id = None, role = Some ''student'' \<rparr>) = Inr p \<and>
        canEdit p = JBool False) \<and>
   (\<exists>p. getProjectRequestPermissions
          (Some \<lparr> status = ''rejected'', submittedBy = Some (SubmitterId ''u1''),
                  submittedById = None, isDeleted = None \<rparr>)
          (Some \<lparr> cu_id = Some ''m7'', cu_underscore_id = None, role = Some ''mentor'' \<rparr>) = Inr p \<and>
        canEdit p = JBool True \<and> canChangeStatus p = JBool True)"
  using rejection_asymmetry
          [of "\<lparr> status = ''rejected'', submittedBy = Some (SubmitterId ''u1''),
                 submittedById = None, isDeleted = None \<rparr>"
              "\<lparr> cu_id = Some ''u1'', cu_underscore_id = None, role = Some ''student'' \<rparr>"]
        rejection_asymmetry
          [of "\<lparr> status = ''rejected'', submittedBy = Some (SubmitterId ''u1''),
                 submittedById = None, isDeleted = None \<rparr>"
              "\<lparr> cu_id = Some ''m7'', cu_underscore_id = None, role = Some ''mentor'' \<rparr>"]
  by (simp add: isOwner_def isAdmin_def isMentorOrHigher_def userId_def submittedById_of_def
        js_and_def)

text \<open>
  C9. Capability hierarchy: for every input pair, absent inputs included, \<open>canApprove\<close>
  implies \<open>canChangeStatus\<close>, \<open>canChangeStatus\<close> implies \<open>canEdit\<close>, and \<open>canEdit\<close> implies
  \<open>canViewDocument\<close>.
\<close>

theorem capability_hierarchy:
  "\<exists>p. getProjectRequestPermissions r u = Inr p \<and>
       (truthy (canApprove p) \<longrightarrow> truthy (canChangeStatus p)) \<and>
       (truthy (canChangeStatus p) \<longrightarrow> truthy (canEdit p)) \<and>
       (truthy (canEdit p) \<longrightarrow> truthy (canViewDocument p))"
  by (cases r; cases u) (auto simp: perm_defs degenerate_def)

theorem capability_hierarchy_witness:
  "\<exists>p. getProjectRequestPermissions
         (Some \<lparr> status = ''pending'', submittedBy = Some (SubmitterId ''u1''),
                 submittedById = None, isDeleted = None \<rparr>)
         (Some \<lparr> cu_id = Some ''m7'', cu_underscore_id = None, role = Some ''mentor'' \<rparr>) = Inr p \<and>
       truthy (canApprove p) \<and> truthy (canChangeStatus p) \<and> truthy (canEdit p) \<and>
       truthy (canViewDocument p)"
proof -
  obtain p where p:
    "getProjectRequestPermissions
       (Some \<lparr> status = ''pending'', submittedBy = Some (SubmitterId ''u1''),
               submittedById = None, isDeleted = None \<rparr>)
       (Some \<lparr> cu_id = Some ''m7'', cu_underscore_id = None, role = Some ''mentor'' \<rparr>) = Inr p"
    and h: "truthy (canApprove p) \<longrightarrow> truthy (canChangeStatus p)"
           "truthy (canChangeStatus p) \<longrightarrow> truthy (canEdit p)"
           "truthy (canEdit p) \<longrightarrow> truthy (canViewDocument p)"
    using capability_hierarchy by blast
  from p have "truthy (canApprove p)"
    by (auto simp: getProjectRequestPermissions_def isMentorOrHigher_def isApproved_def
          js_and_def js_not_def)
  with p h show ?thesis by blast
qed

text \<open>
  C10. Read-only and admin badge: \<open>isReadOnly\<close> and \<open>showAdminBadge\<close> are never both
  true; and for a request and a user that are both present, one of them is true exactly
  when the status of the request is \<open>approved\<close>.
\<close>

theorem readonly_badge_partition:
  "(\<exists>p. getProjectRequestPermissions r u = Inr p \<and>
        \<not> (truthy (isReadOnly p) \<and> truthy (showAdminBadge p))) \<and>
   (\<exists>p. getProjectRequestPermissions (Some pr) (Some cu) = Inr p \<and>
        (truthy (isReadOnly p) \<or> truthy (showAdminBadge p)) = (status pr = ''approved'') \<and>
        (isReadOnly p = JBool True \<or> showAdminBadge p = JBool True) =
          (status pr = ''approved''))"
  by (cases r; cases u) (auto simp: perm_defs degenerate_def)

theorem readonly_badge_partition_witness:
  "\<exists>p. getProjectRequestPermissions
         (Some \<lparr> status = ''approved'', submittedBy = None, submittedById = None,
                 isDeleted = None \<rparr>)
         (Some \<lparr> cu_id = Some ''a1'', cu_underscore_id = None, role = Some ''admin'' \<rparr>) = Inr p \<and>
       (isReadOnly p = JBool True \<or> showAdminBadge p = JBool True) \<and>
       \<not> (truthy (isReadOnly p) \<and> truthy (showAdminBadge p))"
  using readonly_badge_partition
          [of "Some \<lparr> status = ''approved'', submittedBy = None, submittedById = None,
                       isDeleted = None \<rparr>"
              "Some \<lparr> cu_id = Some ''a1'', cu_underscore_id = None, role = Some ''admin'' \<rparr>"
              "\<lparr> status = ''approved'', submittedBy = None, submittedById = None,
                 isDeleted = None \<rparr>"
              "\<lparr> cu_id = Some ''a1'', cu_underscore_id = None, role = Some ''admin'' \<rparr>"]
  by auto

section \<open>Failure of the permission evaluator\<close>

lemma all_err_isl: "isl (all_err rs) = (\<exists>r \<in> set rs. isl r)"
  by (induction rs) (auto simp: bind_err_def split: sum.splits)

lemma isl_bind_Inr: "isl (bind_err a (\<lambda>x. Inr (f x))) = isl a"
  by (cases a) (simp_all add: bind_err_def)

lemma own_toString_not_nullish: "own_toString x \<Longrightarrow> x \<noteq> JUndefined \<and> x \<noteq> JNull"
  by (cases x) simp_all

lemma toString_isl: "isl (toString ns v) = (nullish v \<or> own_toString v)"
proof (induction ns v rule: toString.induct)
  case (6 ns xs)
  have "isl (toString ns (JArr xs)) =
          (\<exists>x \<in> set xs. \<not> (x = JUndefined \<or> x = JNull) \<and> isl (toString ns x))"
    by (auto simp: isl_bind_Inr all_err_isl)
  also have "\<dots> = (\<exists>x \<in> set xs. own_toString x)"
    using "6.IH" by (auto simp: nullish_def dest: own_toString_not_nullish)
  finally show ?case by (simp add: nullish_def)
qed (simp_all add: nullish_def)

lemma truthy_not_nullish: "truthy v \<Longrightarrow> \<not> nullish v"
  by (auto simp: nullish_def)

lemma isOwner_js_isl:
  "isl (isOwner_js ns r u) =
     (truthy (userId_js u) \<and> truthy (submittedById_js r) \<and>
      (own_toString (userId_js u) \<or> own_toString (submittedById_js r)))"
proof -
  have "isl (bind_err a (\<lambda>x. bind_err b (\<lambda>y. Inr (f x y)))) = (isl a \<or> isl b)"
    for a b :: "error + string" and f :: "string \<Rightarrow> string \<Rightarrow> jsval"
    by (cases a; cases b) (simp_all add: bind_err_def)
  then show ?thesis
    by (auto simp: isOwner_js_def toString_isl dest: truthy_not_nullish)
qed

lemma evaluator_js_isl:
  "isl (getProjectRequestPermissions_js ns r u) =
     (truthy r \<and> truthy u \<and> truthy (userId_js u) \<and> truthy (submittedById_js r) \<and>
      (own_toString (userId_js u) \<or> own_toString (submittedById_js r)))"
proof (cases "truthy r \<and> truthy u")
  case True
  then have "isl (getProjectRequestPermissions_js ns r u) = isl (isOwner_js ns r u)"
    by (cases "isOwner_js ns r u")
       (auto simp: getProjectRequestPermissions_js_def bind_err_def dest: truthy_not_nullish)
  with True show ?thesis by (simp add: isOwner_js_isl)
next
  case False
  then show ?thesis by (auto simp: getProjectRequestPermissions_js_def)
qed

lemma member_of_field:
  "member_of (JObj (field k x @ kvs)) k' =
     (if k' = k \<and> x \<noteq> None then JStr (the x) else member_of (JObj kvs) k')"
  by (cases x) simp_all

lemma userId_js_typed: "userId_js (user_js u) = JStr (userId u)"
  by (cases "cu_id u"; cases "cu_underscore_id u"; cases "role u")
     (simp_all add: userId_js_def user_js_def userId_def js_or_def)

lemma submittedById_js_typed: "submittedById_js (request_js r) = JStr (submittedById_of r)"
proof (cases "submittedBy r")
  case None
  then show ?thesis
    by (cases "submittedById r"; cases "isDeleted r")
       (simp_all add: submittedById_js_def request_js_def submittedById_of_def js_or_def
          opt_get_def nullish_def)
next
  case (Some sb)
  show ?thesis
  proof (cases sb)
    case (SubmitterId s)
    with Some show ?thesis
      by (simp add: submittedById_js_def request_js_def submittedById_of_def)
  next
    case (SubmitterObj oid i)
    with Some show ?thesis
      by (cases oid; cases i; cases "submittedById r"; cases "isDeleted r")
         (simp_all add: submittedById_js_def request_js_def submittedById_of_def js_or_def
            opt_get_def nullish_def)
  qed
qed

lemma status_js_typed: "member_of (request_js r) ''status'' = JStr (status r)"
  by (simp add: request_js_def)

lemma truthy_js_typed: "truthy (request_js r)" "truthy (user_js u)"
  by (simp_all add: request_js_def user_js_def)

lemma role_js_typed:
  "member_of (user_js u) ''role'' = (case role u of None \<Rightarrow> JUndefined | Some s \<Rightarrow> JStr s)"
  by (cases "cu_id u"; cases "cu_underscore_id u"; cases "role u")
     (simp_all add: user_js_def)

lemma isOwner_js_typed: "isOwner_js ns (request_js r) (user_js u) = Inr (isOwner r u)"
  by (simp add: isOwner_js_def isOwner_def userId_js_typed submittedById_js_typed
        js_and_def bind_err_def)

lemma evaluator_js_typed:
  "getProjectRequestPermissions_js ns (opt_js request_js r) (opt_js user_js u) =
     getProjectRequestPermissions r u"
proof (cases r)
  case None
  then show ?thesis
    by (simp add: getProjectRequestPermissions_js_def getProjectRequestPermissions_def)
next
  case (Some pr)
  show ?thesis
  proof (cases u)
    case None
    then show ?thesis
      by (simp add: getProjectRequestPermissions_js_def getProjectRequestPermissions_def)
  next
    case (Some cu)
    have t: "truthy (request_js pr)" "truthy (user_js cu)"
      by (simp_all add: request_js_def user_js_def)
    have a: "isAdmin_js (user_js cu) = isAdmin cu"
      by (simp add: isAdmin_js_def isAdmin_def role_js_typed split: option.splits)
    have m: "isMentorOrHigher_js (user_js cu) = isMentorOrHigher cu"
      by (auto simp: isMentorOrHigher_js_def isMentorOrHigher_def role_js_typed js_or_def
          split: option.splits)
    have p: "isApproved_js (request_js pr) = isApproved pr"
      by (simp add: isApproved_js_def isApproved_def status_js_typed)
    show ?thesis
      using t \<open>r = Some pr\<close> Some
      by (simp add: getProjectRequestPermissions_js_def getProjectRequestPermissions_def
            isOwner_js_typed a m p status_js_typed bind_err_def truthy_not_nullish)
  qed
qed

text \<open>
  A user whose \<open>id\<close> is an object with an own member \<open>toString\<close>, as
  \<open>JSON.parse\<close> builds from \<open>{"id": {"toString": null}}\<close>: the call
  \<open>userId.toString()\<close> throws.
\<close>

theorem malformed_identifier_counterexample:
  "getProjectRequestPermissions_js (\<lambda>n. [])
     (JObj [(''status'', JStr ''pending''), (''submittedBy'', JStr ''u1'')])
     (JObj [(''id'', JObj [(''toString'', JNull)])]) = Inl TypeError"
  by (simp add: getProjectRequestPermissions_js_def isOwner_js_def userId_js_def
        submittedById_js_def js_or_def nullish_def bind_err_def)

text \<open>
  C6. The evaluator returns the record with every permission \<open>false\<close> except
  \<open>isReadOnly = true\<close> whenever the request or the user is absent (or falsy). It throws
  exactly when the request and the user are present, both identifiers are truthy, and one
  of them is an object with an own member \<open>toString\<close> or an array with such an element.
  On values of the declared types, whose identifiers are absent or strings, it is the
  evaluator of the sections above, which always returns a record, the restrictive one
  when the request or the user is absent.
\<close>

theorem evaluator_failure_conditions:
  "(\<not> truthy r \<or> \<not> truthy u \<longrightarrow>
      getProjectRequestPermissions_js ns r u =
        Inr \<lparr> canEdit = JBool False, canChangeStatus = JBool False,
              canViewDocument = JBool False, canDelete = JBool False,
              canApprove = JBool False, canReject = JBool False,
              isReadOnly = JBool True, showAdminBadge = JBool False \<rparr>) \<and>
   isl (getProjectRequestPermissions_js ns r u) =
     (truthy r \<and> truthy u \<and> truthy (userId_js u) \<and> truthy (submittedById_js r) \<and>
      (own_toString (userId_js u) \<or> own_toString (submittedById_js r))) \<and>
   getProjectRequestPermissions_js ns (opt_js request_js pr) (opt_js user_js cu) =
     getProjectRequestPermissions pr cu \<and>
   (\<exists>p. getProjectRequestPermissions pr cu = Inr p) \<and>
   (pr = None \<or> cu = None \<longrightarrow>
      getProjectRequestPermissions pr cu =
        Inr \<lparr> canEdit = JBool False, canChangeStatus = JBool False,
              canViewDocument = JBool False, canDelete = JBool False,
              canApprove = JBool False, canReject = JBool False,
              isReadOnly = JBool True, showAdminBadge = JBool False \<rparr>)"
proof (intro conjI impI)
  assume "\<not> truthy r \<or> \<not> truthy u"
  then show "getProjectRequestPermissions_js ns r u =
        Inr \<lparr> canEdit = JBool False, canChangeStatus = JBool False,
              canViewDocument = JBool False, canDelete = JBool False,
              canApprove = JBool False, canReject = JBool False,
              isReadOnly = JBool True, showAdminBadge = JBool False \<rparr>"
    by (auto simp: getProjectRequestPermissions_js_def degenerate_def)
next
  show "isl (getProjectRequestPermissions_js ns r u) =
     (truthy r \<and> truthy u \<and> truthy (userId_js u) \<and> truthy (submittedById_js r) \<and>
      (own_toString (userId_js u) \<or> own_toString (submittedById_js r)))"
    by (rule evaluator_js_isl)
next
  show "getProjectRequestPermissions_js ns (opt_js request_js pr) (opt_js user_js cu) =
     getProjectRequestPermissions pr cu"
    by (rule evaluator_js_typed)
next
  show "\<exists>p. getProjectRequestPermissions pr cu = Inr p"
    by (cases pr; cases cu) (simp_all add: getProjectRequestPermissions_def)
next
  assume "pr = None \<or> cu = None"
  then show "getProjectRequestPermissions pr cu =
        Inr \<lparr> canEdit = JBool False, canChangeStatus = JBool False,
              canViewDocument = JBool False, canDelete = JBool False,
              canApprove = JBool False, canReject = JBool False,
              isReadOnly = JBool True, showAdminBadge = JBool False \<rparr>"
    by (auto simp: getProjectRequestPermissions_def degenerate_def)
qed

theorem evaluator_failure_conditions_witness:
  "getProjectRequestPermissions_js (\<lambda>n. []) JNull (JObj [(''id'', JStr ''u1'')]) =
     Inr \<lparr> canEdit = JBool False, canChangeStatus = JBool False,
           canViewDocument = JBool False, canDelete = JBool False,
           canApprove = JBool False, canReject = JBool False,
           isReadOnly = JBool True, showAdminBadge = JBool False \<rparr> \<and>
   isl (getProjectRequestPermissions_js (\<lambda>n. [])
          (JObj [(''status'', JStr ''pending''), (''submittedBy'', JStr ''u1'')])
          (JObj [(''id'', JArr [JObj [(''toString'', JNull)]])])) \<and>
   \<not> isl (getProjectRequestPermissions_js (\<lambda>n. [])
            (JObj [(''status'', JStr ''pending''), (''submittedBy'', JStr ''u1'')])
            (JObj [(''id'', JNum (Finite 5))])) \<and>
   getProjectRequestPermissions
     (Some \<lparr> status = ''pending'', submittedBy = None, submittedById = None,
             isDeleted = None \<rparr>) None =
     Inr \<lparr> canEdit = JBool False, canChangeStatus = JBool False,
           canViewDocument = JBool False, canDelete = JBool False,
           canApprove = JBool False, canReject = JBool False,
           isReadOnly = JBool True, showAdminBadge = JBool False \<rparr>"
  using evaluator_failure_conditions
          [where ns = "\<lambda>n. []" and r = JNull and u = "JObj [(''id'', JStr ''u1'')]"]
        evaluator_failure_conditions
          [where ns = "\<lambda>n. []"
             and r = "JObj [(''status'', JStr ''pending''), (''submittedBy'', JStr ''u1'')]"
             and u = "JObj [(''id'', JArr [JObj [(''toString'', JNull)]])]"]
        evaluator_failure_conditions
          [where ns = "\<lambda>n. []"
             and r = "JObj [(''status'', JStr ''pending''), (''submittedBy'', JStr ''u1'')]"
             and u = "JObj [(''id'', JNum (Finite 5))]"
             and pr = "Some \<lparr> status = ''pending'', submittedBy = None, submittedById = None,
                               isDeleted = None \<rparr>"
             and cu = None]
  by (simp add: userId_js_def submittedById_js_def js_or_def)

section \<open>Soft-deleted requests\<close>

text \<open>
  The evaluator does not read \<open>isDeleted\<close>: an admin keeps every capability on a request
  whose flag is set.
\<close>

theorem deleted_request_counterexample:
  "getProjectRequestPermissions
     (Some \<lparr> status = ''pending'', submittedBy = None, submittedById = None,
             isDeleted = Some True \<rparr>)
     (Some \<lparr> cu_id = Some ''a1'', cu_underscore_id = None, role = Some ''admin'' \<rparr>) =
   Inr \<lparr> canEdit = JBool True, canChangeStatus = JBool True, canViewDocument = JBool True,
         canDelete = JBool True, canApprove = JBool True, canReject = JBool True,
         isReadOnly = JBool False, showAdminBadge = JBool False \<rparr>"
  by (simp add: perm_defs)

lemma status_count_Cons:
  "status_count s (r # items) =
     (if status r = s \<and> \<not> flag_set (isDeleted r) then Suc (status_count s items)
      else status_count s items)"
  by (simp add: status_count_def)

lemma submittedById_of_isDeleted:
  "submittedById_of (r\<lparr> isDeleted := d \<rparr>) = submittedById_of r"
  by (simp add: submittedById_of_def split: option.splits submitter.splits)

lemma evaluator_ignores_isDeleted:
  "getProjectRequestPermissions (Some (r\<lparr> isDeleted := d \<rparr>)) u =
     getProjectRequestPermissions (Some r) u"
  by (cases u)
     (simp_all add: getProjectRequestPermissions_def isOwner_def isApproved_def
        submittedById_of_isDeleted)

text \<open>
  C2. Soft-deleted requests: the evaluator returns for a request the record it returns
  for the same request with any other value of \<open>isDeleted\<close>. The list page does not
  evaluate the permissions of a row whose \<open>isDeleted\<close> is set, so that none of the
  actions depending on them is rendered, and does not count the request in the
  statistics of its status; for a row whose flag is not set it evaluates them. The
  listing is requested from the endpoint of deleted requests exactly when \<open>showDeleted\<close>
  is set or the status filter is \<open>deleted\<close>, and from \<open>/api/project-requests\<close> with the
  initial filters.
\<close>

theorem deleted_requests:
  "getProjectRequestPermissions (Some (r\<lparr> isDeleted := d \<rparr>)) u =
     getProjectRequestPermissions (Some r) u \<and>
   (flag_set (isDeleted r) \<longrightarrow>
      row_permissions r u = None \<and>
      status_count s (r # items) = status_count s items) \<and>
   (\<not> flag_set (isDeleted r) \<longrightarrow>
      row_permissions r u = Some (getProjectRequestPermissions (Some r) u)) \<and>
   (endpoint showDeleted status_filter = ''/api/project-requests/deleted'') =
     (showDeleted \<or> status_filter = ''deleted'') \<and>
   endpoint False [] = ''/api/project-requests''"
  by (simp add: evaluator_ignores_isDeleted row_permissions_def status_count_Cons
        endpoint_def shouldUseDeletedEndpoint_def)

theorem deleted_requests_witness:
  "row_permissions
     \<lparr> status = ''pending'', submittedBy = None, submittedById = None, isDeleted = Some True \<rparr>
     (Some \<lparr> cu_id = Some ''a1'', cu_underscore_id = None, role = Some ''admin'' \<rparr>) = None \<and>
   status_count ''pending''
     [\<lparr> status = ''pending'', submittedBy = None, submittedById = None,
        isDeleted = Some True \<rparr>] = 0 \<and>
   row_permissions
     \<lparr> status = ''pending'', submittedBy = None, submittedById = None, isDeleted = None \<rparr>
     None =
     Some (getProjectRequestPermissions
        (Some \<lparr> status = ''pending'', submittedBy = None, submittedById = None,
                isDeleted = None \<rparr>) None)"
  using deleted_requests
          [where r = "\<lparr> status = ''pending'', submittedBy = None, submittedById = None,
                        isDeleted = Some True \<rparr>"
             and u = "Some \<lparr> cu_id = Some ''a1'', cu_underscore_id = None,
                             role = Some ''admin'' \<rparr>"
             and s = "''pending''" and items = "[]"]
        deleted_requests
          [where r = "\<lparr> status = ''pending'', submittedBy = None, submittedById = None,
                        isDeleted = None \<rparr>"
             and u = None]
  by (simp add: status_count_def)

section \<open>Properties of the status badge\<close>

text \<open>
  A non-empty status outside the five values gets the tuple of \<open>pending\<close>, not the
  \<open>Unknown\<close> one.
\<close>

theorem status_badge_counterexample:
  "getStatusBadge (Some ''archived'') False =
     Tuple \<lparr> badge_color = ''bg-yellow-100 text-yellow-800'', badge_text = ''Pending'',
             badge_icon = ''clock'', badge_badge = None \<rparr> \<and>
   getStatusBadge (Some ''archived'') False \<noteq>
     Tuple \<lparr> badge_color = ''bg-gray-100 text-gray-800'', badge_text = ''Unknown'',
             badge_icon = ''clock'', badge_badge = None \<rparr>"
  by (simp add: getStatusBadge_def badges_def pending_badge_def object_prototype_keys_def)

text \<open>
  C5. Status badge: \<open>pending\<close> maps to the yellow \<open>Pending\<close> tuple; a missing or empty
  status maps to the \<open>Unknown\<close> tuple; a non-empty status that is none of the five values
  and not a name inherited from \<open>Object.prototype\<close> maps to the \<open>Pending\<close> tuple; and for
  \<open>approved\<close> the \<open>badge\<close> field is \<open>Admin-Only Editing\<close> when the \<open>canEdit\<close> argument is
  true and \<open>Read-Only\<close> otherwise.
\<close>

theorem status_badge:
  "getStatusBadge (Some ''pending'') c =
     Tuple \<lparr> badge_color = ''bg-yellow-100 text-yellow-800'', badge_text = ''Pending'',
             badge_icon = ''clock'', badge_badge = None \<rparr> \<and>
   getStatusBadge None c =
     Tuple \<lparr> badge_color = ''bg-gray-100 text-gray-800'', badge_text = ''Unknown'',
             badge_icon = ''clock'', badge_badge = None \<rparr> \<and>
   getStatusBadge (Some []) c =
     Tuple \<lparr> badge_color = ''bg-gray-100 text-gray-800'', badge_text = ''Unknown'',
             badge_icon = ''clock'', badge_badge = None \<rparr> \<and>
   (s \<noteq> [] \<and>
    s \<notin> set [''pending'', ''under_review'', ''approved'', ''rejected'', ''on_hold''] \<and>
    s \<notin> set object_prototype_keys \<longrightarrow>
      getStatusBadge (Some s) c =
        Tuple \<lparr> badge_color = ''bg-yellow-100 text-yellow-800'', badge_text = ''Pending'',
                badge_icon = ''clock'', badge_badge = None \<rparr>) \<and>
   getStatusBadge (Some ''approved'') c =
     Tuple \<lparr> badge_color = ''bg-green-100 text-green-800'', badge_text = ''Approved'',
             badge_icon = ''check-circle'',
             badge_badge = Some (if c then ''Admin-Only Editing'' else ''Read-Only'') \<rparr>"
  by (simp add: getStatusBadge_def badges_def pending_badge_def unknown_badge_def)

theorem status_badge_witness:
  "getStatusBadge (Some ''archived'') True =
     Tuple \<lparr> badge_color = ''bg-yellow-100 text-yellow-800'', badge_text = ''Pending'',
             badge_icon = ''clock'', badge_badge = None \<rparr> \<and>
   getStatusBadge (Some ''approved'') True =
     Tuple \<lparr> badge_color = ''bg-green-100 text-green-800'', badge_text = ''Approved'',
             badge_icon = ''check-circle'', badge_badge = Some ''Admin-Only Editing'' \<rparr>"
  using status_badge [of True "''archived''"]
  by (simp add: object_prototype_keys_def)

section \<open>Properties of the proxy route\<close>

text \<open>
  A backend response with status 200 and an empty body is answered with the bare object
  \<open>{}\<close>, which has no \<open>success\<close> member.
\<close>

theorem proxy_empty_body_counterexample:
  "GET (\<lambda>t. None)
       (\<lambda>url tok. Fulfilled \<lparr> resp_status = 200, resp_content_type = None,
                                resp_text = Some [] \<rparr>)
       ''https://backend'' ''42'' (Some ''Bearer t'') =
     \<lparr> reply_status = 200, reply_body = JObj [] \<rparr> \<and>
   \<not> is_envelope (JObj [])"
  by (simp add: GET_def GET_try_def GET_data_def resp_ok_def NextResponse_json_def
        null_body_status_def is_envelope_def blank_def)

lemma truthy_json_of: "truthy v \<Longrightarrow> \<exists>j. json_of v = Some j"
  by (cases v) simp_all

lemma json_of_defined: "v \<noteq> JUndefined \<Longrightarrow> \<exists>j. json_of v = Some j"
  by (cases v) simp_all

lemma GET_ok:
  assumes "token = Some tok" "tok \<noteq> []"
    and "fetch (backendUrl @ ''/api/users/'' @ ident) tok = Fulfilled response"
    and "resp_ok response" and "json_of (GET_data parse ident response) = Some j"
  shows "GET parse fetch backendUrl ident token = \<lparr> reply_status = 200, reply_body = j \<rparr>"
  using assms
  by (simp add: GET_def GET_try_def NextResponse_json_def null_body_status_def)

lemma GET_not_ok:
  assumes "token = Some tok" "tok \<noteq> []"
    and "fetch (backendUrl @ ''/api/users/'' @ ident) tok = Fulfilled response"
    and "\<not> resp_ok response"
    and "200 \<le> resp_status response \<and> resp_status response \<le> 599 \<and>
         resp_status response \<noteq> 304"
    and "\<not> nullish (GET_data parse ident response)"
    and "json_of
           (js_or (js_or (member_of (GET_data parse ident response) ''message'')
                         (opt_get (member_of (GET_data parse ident response) ''error'')
                            ''message''))
                  (JStr (''Failed to fetch user ('' @ string_of_nat (resp_status response) @
                         '')''))) = Some j"
  shows "GET parse fetch backendUrl ident token =
           \<lparr> reply_status = resp_status response, reply_body = failure_envelope j \<rparr>"
  using assms
  by (auto simp: GET_def GET_try_def NextResponse_json_def null_body_status_def
        bind_err_def get_prop_def js_or_def failure_envelope_def resp_ok_def Let_def
      split: if_splits)

lemma GET_unsendable:
  assumes "token = Some tok" "tok \<noteq> []"
    and "fetch (backendUrl @ ''/api/users/'' @ ident) tok = Fulfilled response"
    and "\<not> resp_ok response"
    and "\<not> (200 \<le> resp_status response \<and> resp_status response \<le> 599 \<and>
            resp_status response \<noteq> 304) \<or> nullish (GET_data parse ident response)"
  shows "GET parse fetch backendUrl ident token = internal_error"
  using assms
  by (auto simp: GET_def GET_try_def NextResponse_json_def null_body_status_def
        bind_err_def get_prop_def internal_error_def failure_envelope_def Let_def
      split: sum.splits option.splits if_splits)

lemma GET_data_cases:
  "resp_text response = None \<Longrightarrow>
     GET_data parse ident response =
       JObj [(''message'',
              JStr (''Failed to read backend response ('' @
                    string_of_nat (resp_status response) @ '')''))]"
  "resp_text response = Some t \<Longrightarrow> blank t \<Longrightarrow> GET_data parse ident response = JObj []"
  "resp_text response = Some t \<Longrightarrow> \<not> blank t \<Longrightarrow>
   \<not> includes_str (or_else (resp_content_type response) []) ''application/json'' \<Longrightarrow>
     GET_data parse ident response =
       JObj [(''message'',
              JStr (if resp_status response = 404
                    then ''User with ID '' @ [CHR 0x22] @ ident @ [CHR 0x22] @ '' not found''
                    else ''Backend returned '' @ string_of_nat (resp_status response) @
                         '' error'')),
             (''error'', JStr ''Non-JSON response from backend'')]"
  "resp_text response = Some t \<Longrightarrow> \<not> blank t \<Longrightarrow>
   includes_str (or_else (resp_content_type response) []) ''application/json'' \<Longrightarrow>
   parse t = None \<Longrightarrow>
     GET_data parse ident response =
       JObj [(''message'',
              JStr (''Backend returned invalid JSON ('' @
                    string_of_nat (resp_status response) @ '')'')),
             (''error'', JStr ''Invalid JSON response from backend'')]"
  "resp_text response = Some t \<Longrightarrow> \<not> blank t \<Longrightarrow>
   includes_str (or_else (resp_content_type response) []) ''application/json'' \<Longrightarrow>
   parse t = Some v \<Longrightarrow> GET_data parse ident response = v"
  by (auto simp: GET_data_def blank_def Let_def)

text \<open>
  C7. Replies of the proxy route, for a request with a token and a backend that
  responds with status \<open>S\<close>. When the response is ok, the reply has status 200 and its
  body is the data built from the response, serialized as it is and not wrapped: a
  \<open>message\<close> for a body that cannot be read, \<open>{}\<close> for an empty or blank body, a
  \<open>message\<close> and an \<open>error\<close> for a body that is not JSON or does not parse, the parsed
  value otherwise. When the response is not ok and \<open>S\<close> is in 200..599 and not 304, the
  reply has status \<open>S\<close> and the body \<open>{success: false, message}\<close>, where the message is
  that of the data built, or for a parsed value the serialization of the first truthy of
  its \<open>message\<close>, the \<open>message\<close> of its \<open>error\<close>, and \<open>Failed to fetch user (S)\<close>. A
  parsed \<open>null\<close>, the status 304 and a status outside 200..599 end in the \<open>catch\<close> of the
  handler, which answers 500 with \<open>Internal server error\<close>.
\<close>

theorem proxy_reply:
  fixes parse :: "string \<Rightarrow> jsval option" and fetch :: "string \<Rightarrow> string \<Rightarrow> fetched"
    and backendUrl ident tok t :: string and token :: "string option"
    and response :: BackendResponse and v :: jsval
  assumes "token = Some tok" and "tok \<noteq> []"
    and "fetch (backendUrl @ ''/api/users/'' @ ident) tok = Fulfilled response"
  defines "reply \<equiv> GET parse fetch backendUrl ident token"
    and "S \<equiv> resp_status response"
    and "isJson \<equiv>
           includes_str (or_else (resp_content_type response) []) ''application/json''"
  shows
    "(resp_ok response \<longrightarrow>
        (resp_text response = None \<longrightarrow>
           reply = \<lparr> reply_status = 200,
                     reply_body =
                       JObj [(''message'',
                              JStr (''Failed to read backend response ('' @ string_of_nat S @
                                    '')''))] \<rparr>) \<and>
        (resp_text response = Some t \<and> blank t \<longrightarrow>
           reply = \<lparr> reply_status = 200, reply_body = JObj [] \<rparr>) \<and>
        (resp_text response = Some t \<and> \<not> blank t \<and> \<not> isJson \<longrightarrow>
           reply = \<lparr> reply_status = 200,
                     reply_body =
                       JObj [(''message'',
                              JStr (''Backend returned '' @ string_of_nat S @ '' error'')),
                             (''error'', JStr ''Non-JSON response from backend'')] \<rparr>) \<and>
        (resp_text response = Some t \<and> \<not> blank t \<and> isJson \<and> parse t = None \<longrightarrow>
           reply = \<lparr> reply_status = 200,
                     reply_body =
                       JObj [(''message'',
                              JStr (''Backend returned invalid JSON ('' @ string_of_nat S @
                                    '')'')),
                             (''error'', JStr ''Invalid JSON response from backend'')] \<rparr>) \<and>
        (resp_text response = Some t \<and> \<not> blank t \<and> isJson \<and> parse t = Some v \<and>
         v \<noteq> JUndefined \<longrightarrow>
           (\<exists>j. json_of v = Some j \<and> reply = \<lparr> reply_status = 200, reply_body = j \<rparr>))) \<and>
     (\<not> resp_ok response \<and> 200 \<le> S \<and> S \<le> 599 \<and> S \<noteq> 304 \<longrightarrow>
        (resp_text response = None \<longrightarrow>
           reply = \<lparr> reply_status = S,
                     reply_body =
                       failure_envelope
                         (JStr (''Failed to read backend response ('' @ string_of_nat S @
                                '')'')) \<rparr>) \<and>
        (resp_text response = Some t \<and> blank t \<longrightarrow>
           reply = \<lparr> reply_status = S,
                     reply_body =
                       failure_envelope
                         (JStr (''Failed to fetch user ('' @ string_of_nat S @ '')'')) \<rparr>) \<and>
        (resp_text response = Some t \<and> \<not> blank t \<and> \<not> isJson \<longrightarrow>
           reply = \<lparr> reply_status = S,
                     reply_body =
                       failure_envelope
                         (JStr (if S = 404
                                then ''User with ID '' @ [CHR 0x22] @ ident @ [CHR 0x22] @
                                     '' not found''
                                else ''Backend returned '' @ string_of_nat S @ '' error'')) \<rparr>) \<and>
        (resp_text response = Some t \<and> \<not> blank t \<and> isJson \<and> parse t = None \<longrightarrow>
           reply = \<lparr> reply_status = S,
                     reply_body =
                       failure_envelope
                         (JStr (''Backend returned invalid JSON ('' @ string_of_nat S @
                                '')'')) \<rparr>) \<and>
        (resp_text response = Some t \<and> \<not> blank t \<and> isJson \<and> parse t = Some v \<and>
         \<not> nullish v \<longrightarrow>
           (\<exists>j. json_of
                   (js_or (js_or (member_of v ''message'')
                                 (opt_get (member_of v ''error'') ''message''))
                          (JStr (''Failed to fetch user ('' @ string_of_nat S @ '')''))) =
                 Some j \<and>
                reply = \<lparr> reply_status = S, reply_body = failure_envelope j \<rparr>)) \<and>
        (resp_text response = Some t \<and> \<not> blank t \<and> isJson \<and> parse t = Some v \<and>
         nullish v \<longrightarrow>
           reply = internal_error)) \<and>
     (\<not> resp_ok response \<and> \<not> (200 \<le> S \<and> S \<le> 599 \<and> S \<noteq> 304) \<longrightarrow>
        reply = internal_error)"
proof -
  note ok = GET_ok [where fetch = fetch and backendUrl = backendUrl and ident = ident
      and parse = parse and token = token and tok = tok and response = response,
      OF assms(1-3)]
  note no = GET_not_ok [where fetch = fetch and backendUrl = backendUrl and ident = ident
      and parse = parse and token = token and tok = tok and response = response,
      OF assms(1-3)]
  note un = GET_unsendable [where fetch = fetch and backendUrl = backendUrl and ident = ident
      and parse = parse and token = token and tok = tok and response = response,
      OF assms(1-3)]
  have fallback: "\<exists>j. json_of (js_or a (JStr (''Failed to fetch user ('' @ n @ '')''))) = Some j"
    for a n
    by (rule truthy_json_of) (simp add: js_or_def)
  show ?thesis
    unfolding reply_def S_def isJson_def
  proof (intro conjI impI; (elim conjE)?)
    assume "resp_ok response" "resp_text response = None"
    then show "GET parse fetch backendUrl ident token =
        \<lparr> reply_status = 200,
          reply_body =
            JObj [(''message'',
                   JStr (''Failed to read backend response ('' @
                         string_of_nat (resp_status response) @ '')''))] \<rparr>"
      by (intro ok) (simp_all add: GET_data_cases)
  next
    assume "resp_ok response" "resp_text response = Some t" "blank t"
    then show "GET parse fetch backendUrl ident token =
        \<lparr> reply_status = 200, reply_body = JObj [] \<rparr>"
      by (intro ok) (simp_all add: GET_data_cases)
  next
    assume "resp_ok response" "resp_text response = Some t" "\<not> blank t"
      "\<not> includes_str (or_else (resp_content_type response) []) ''application/json''"
    then show "GET parse fetch backendUrl ident token =
        \<lparr> reply_status = 200,
          reply_body =
            JObj [(''message'',
                   JStr (''Backend returned '' @ string_of_nat (resp_status response) @
                         '' error'')),
                  (''error'', JStr ''Non-JSON response from backend'')] \<rparr>"
      by (intro ok) (auto simp: GET_data_cases resp_ok_def)
  next
    assume "resp_ok response" "resp_text response = Some t" "\<not> blank t"
      "includes_str (or_else (resp_content_type response) []) ''application/json''"
      "parse t = None"
    then show "GET parse fetch backendUrl ident token =
        \<lparr> reply_status = 200,
          reply_body =
            JObj [(''message'',
                   JStr (''Backend returned invalid JSON ('' @
                         string_of_nat (resp_status response) @ '')'')),
                  (''error'', JStr ''Invalid JSON response from backend'')] \<rparr>"
      by (intro ok) (simp_all add: GET_data_cases)
  next
    assume a: "resp_ok response" "resp_text response = Some t" "\<not> blank t"
      "includes_str (or_else (resp_content_type response) []) ''application/json''"
      "parse t = Some v" "v \<noteq> JUndefined"
    then obtain j where j: "json_of v = Some j" using json_of_defined by blast
    with a have "GET parse fetch backendUrl ident token =
        \<lparr> reply_status = 200, reply_body = j \<rparr>"
      by (intro ok) (simp_all add: GET_data_cases)
    with j show "\<exists>j. json_of v = Some j \<and>
        GET parse fetch backendUrl ident token = \<lparr> reply_status = 200, reply_body = j \<rparr>"
      by blast
  next
    assume "\<not> resp_ok response" "200 \<le> resp_status response"
      "resp_status response \<le> 599" "resp_status response \<noteq> 304"
      "resp_text response = None"
    then show "GET parse fetch backendUrl ident token =
        \<lparr> reply_status = resp_status response,
          reply_body =
            failure_envelope
              (JStr (''Failed to read backend response ('' @
                     string_of_nat (resp_status response) @ '')'')) \<rparr>"
      by (intro no) (simp_all add: GET_data_cases nullish_def js_or_def)
  next
    assume "\<not> resp_ok response" "200 \<le> resp_status response"
      "resp_status response \<le> 599" "resp_status response \<noteq> 304"
      "resp_text response = Some t" "blank t"
    then show "GET parse fetch backendUrl ident token =
        \<lparr> reply_status = resp_status response,
          reply_body =
            failure_envelope
              (JStr (''Failed to fetch user ('' @ string_of_nat (resp_status response) @
                     '')'')) \<rparr>"
      by (intro no) (simp_all add: GET_data_cases nullish_def js_or_def opt_get_def)
  next
    assume "\<not> resp_ok response" "200 \<le> resp_status response"
      "resp_status response \<le> 599" "resp_status response \<noteq> 304"
      "resp_text response = Some t" "\<not> blank t"
      "\<not> includes_str (or_else (resp_content_type response) []) ''application/json''"
    then show "GET parse fetch backendUrl ident token =
        \<lparr> reply_status = resp_status response,
          reply_body =
            failure_envelope
              (JStr (if resp_status response = 404
                     then ''User with ID '' @ [CHR 0x22] @ ident @ [CHR 0x22] @
                          '' not found''
                     else ''Backend returned '' @ string_of_nat (resp_status response) @
                          '' error'')) \<rparr>"
      by (intro no) (simp_all add: GET_data_cases nullish_def js_or_def)
  next
    assume "\<not> resp_ok response" "200 \<le> resp_status response"
      "resp_status response \<le> 599" "resp_status response \<noteq> 304"
      "resp_text response = Some t" "\<not> blank t"
      "includes_str (or_else (resp_content_type response) []) ''application/json''"
      "parse t = None"
    then show "GET parse fetch backendUrl ident token =
        \<lparr> reply_status = resp_status response,
          reply_body =
            failure_envelope
              (JStr (''Backend returned invalid JSON ('' @
                     string_of_nat (resp_status response) @ '')'')) \<rparr>"
      by (intro no) (simp_all add: GET_data_cases nullish_def js_or_def)
  next
    assume a: "\<not> resp_ok response" "200 \<le> resp_status response"
      "resp_status response \<le> 599" "resp_status response \<noteq> 304"
      "resp_text response = Some t" "\<not> blank t"
      "includes_str (or_else (resp_content_type response) []) ''application/json''"
      "parse t = Some v" "\<not> nullish v"
    obtain j where j:
      "json_of (js_or (js_or (member_of v ''message'')
                             (opt_get (member_of v ''error'') ''message''))
                      (JStr (''Failed to fetch user ('' @
                             string_of_nat (resp_status response) @ '')''))) = Some j"
      using fallback by blast
    with a have "GET parse fetch backendUrl ident token =
        \<lparr> reply_status = resp_status response, reply_body = failure_envelope j \<rparr>"
      by (intro no) (simp_all add: GET_data_cases)
    with j show "\<exists>j. json_of (js_or (js_or (member_of v ''message'')
                             (opt_get (member_of v ''error'') ''message''))
                      (JStr (''Failed to fetch user ('' @
                             string_of_nat (resp_status response) @ '')''))) = Some j \<and>
        GET parse fetch backendUrl ident token =
          \<lparr> reply_status = resp_status response, reply_body = failure_envelope j \<rparr>"
      by blast
  next
    assume "\<not> resp_ok response" "resp_text response = Some t" "\<not> blank t"
      "includes_str (or_else (resp_content_type response) []) ''application/json''"
      "parse t = Some v" "nullish v"
    then show "GET parse fetch backendUrl ident token = internal_error"
      by (intro un) (simp_all add: GET_data_cases)
  next
    assume "\<not> resp_ok response"
      "\<not> (200 \<le> resp_status response \<and> resp_status response \<le> 599 \<and>
          resp_status response \<noteq> 304)"
    then show "GET parse fetch backendUrl ident token = internal_error"
      by (intro un) simp_all
  qed
qed

theorem proxy_reply_witness:
  "GET (\<lambda>t. None)
       (\<lambda>url tok. Fulfilled \<lparr> resp_status = 200, resp_content_type = None,
                                resp_text = Some [] \<rparr>)
       ''https://backend'' ''42'' (Some ''Bearer t'') =
     \<lparr> reply_status = 200, reply_body = JObj [] \<rparr> \<and>
   GET (\<lambda>t. None)
       (\<lambda>url tok. Fulfilled \<lparr> resp_status = 404, resp_content_type = Some ''text/html'',
                                resp_text = Some ''<html>'' \<rparr>)
       ''https://backend'' ''42'' (Some ''Bearer t'') =
     \<lparr> reply_status = 404,
       reply_body =
         failure_envelope
           (JStr (''User with ID '' @ [CHR 0x22] @ ''42'' @ [CHR 0x22] @ '' not found'')) \<rparr> \<and>
   GET (\<lambda>t. Some (JObj [(''message'', JNum PosInfinity)]))
       (\<lambda>url tok. Fulfilled \<lparr> resp_status = 500,
                                resp_content_type = Some ''application/json'',
                                resp_text = Some (''{'' @ [CHR 0x22] @ ''message'' @ [CHR 0x22] @ '':1e309}'') \<rparr>)
       ''https://backend'' ''42'' (Some ''Bearer t'') =
     \<lparr> reply_status = 500, reply_body = failure_envelope JNull \<rparr> \<and>
   GET (\<lambda>t. None)
       (\<lambda>url tok. Fulfilled \<lparr> resp_status = 304, resp_content_type = None,
                                resp_text = Some [] \<rparr>)
       ''https://backend'' ''42'' (Some ''Bearer t'') = internal_error"
proof -
  have e1: "GET (\<lambda>t. None)
       (\<lambda>url tok. Fulfilled \<lparr> resp_status = 200, resp_content_type = None,
                                resp_text = Some [] \<rparr>)
       ''https://backend'' ''42'' (Some ''Bearer t'') =
     \<lparr> reply_status = 200, reply_body = JObj [] \<rparr>"
    using proxy_reply
            [where token = "Some ''Bearer t''" and tok = "''Bearer t''"
               and fetch = "\<lambda>url tok. Fulfilled \<lparr> resp_status = 200,
                                        resp_content_type = None, resp_text = Some [] \<rparr>"
               and backendUrl = "''https://backend''" and ident = "''42''"
               and response = "\<lparr> resp_status = 200, resp_content_type = None,
                                  resp_text = Some [] \<rparr>"
               and parse = "\<lambda>t. None" and t = "[]"]
    by (simp add: resp_ok_def blank_def)
  have e2: "GET (\<lambda>t. None)
       (\<lambda>url tok. Fulfilled \<lparr> resp_status = 404, resp_content_type = Some ''text/html'',
                                resp_text = Some ''<html>'' \<rparr>)
       ''https://backend'' ''42'' (Some ''Bearer t'') =
     \<lparr> reply_status = 404,
       reply_body =
         failure_envelope
           (JStr (''User with ID '' @ [CHR 0x22] @ ''42'' @ [CHR 0x22] @ '' not found'')) \<rparr>"
    using proxy_reply
            [where token = "Some ''Bearer t''" and tok = "''Bearer t''"
               and fetch = "\<lambda>url tok. Fulfilled \<lparr> resp_status = 404,
                                        resp_content_type = Some ''text/html'',
                                        resp_text = Some ''<html>'' \<rparr>"
               and backendUrl = "''https://backend''" and ident = "''42''"
               and response = "\<lparr> resp_status = 404, resp_content_type = Some ''text/html'',
                                  resp_text = Some ''<html>'' \<rparr>"
               and parse = "\<lambda>t. None" and t = "''<html>''"]
    by (simp add: resp_ok_def blank_def js_whitespace_def)
  have e3: "GET (\<lambda>t. Some (JObj [(''message'', JNum PosInfinity)]))
       (\<lambda>url tok. Fulfilled \<lparr> resp_status = 500,
                                resp_content_type = Some ''application/json'',
                                resp_text = Some (''{'' @ [CHR 0x22] @ ''message'' @ [CHR 0x22] @ '':1e309}'') \<rparr>)
       ''https://backend'' ''42'' (Some ''Bearer t'') =
     \<lparr> reply_status = 500, reply_body = failure_envelope JNull \<rparr>"
    using proxy_reply
            [where token = "Some ''Bearer t''" and tok = "''Bearer t''"
               and fetch = "\<lambda>url tok. Fulfilled \<lparr> resp_status = 500,
                                        resp_content_type = Some ''application/json'',
                                        resp_text = Some (''{'' @ [CHR 0x22] @ ''message'' @ [CHR 0x22] @ '':1e309}'') \<rparr>"
               and backendUrl = "''https://backend''" and ident = "''42''"
               and response = "\<lparr> resp_status = 500,
                                  resp_content_type = Some ''application/json'',
                                  resp_text = Some (''{'' @ [CHR 0x22] @ ''message'' @ [CHR 0x22] @ '':1e309}'') \<rparr>"
               and parse = "\<lambda>t. Some (JObj [(''message'', JNum PosInfinity)])"
               and t = "(''{'' @ [CHR 0x22] @ ''message'' @ [CHR 0x22] @ '':1e309}'')"
               and v = "JObj [(''message'', JNum PosInfinity)]"]
    by (simp add: resp_ok_def blank_def js_whitespace_def nullish_def js_or_def)
  have e4: "GET (\<lambda>t. None)
       (\<lambda>url tok. Fulfilled \<lparr> resp_status = 304, resp_content_type = None,
                                resp_text = Some [] \<rparr>)
       ''https://backend'' ''42'' (Some ''Bearer t'') = internal_error"
    using proxy_reply
            [where token = "Some ''Bearer t''" and tok = "''Bearer t''"
               and fetch = "\<lambda>url tok. Fulfilled \<lparr> resp_status = 304,
                                        resp_content_type = None, resp_text = Some [] \<rparr>"
               and backendUrl = "''https://backend''" and ident = "''42''"
               and response = "\<lparr> resp_status = 304, resp_content_type = None,
                                  resp_text = Some [] \<rparr>"
               and parse = "\<lambda>t. None"]
    by (simp add: resp_ok_def)
  from e1 e2 e3 e4 show ?thesis by blast
qed

section \<open>Termination of the paginated fetch\<close>









end
